theory Spec2Isabelle
  imports Main
begin

section \<open>Request data of \<open>rotkehlchen/api/v1/resources.py\<close>\<close>

text \<open>
  A Python \<open>dict\<close> with string keys is an association list in insertion order. The
  sentinel \<open>missing\<close> of marshmallow is \<open>None\<close> of an option type. The value a loader
  handles is either a plain \<open>dict\<close> (the parsed JSON body, the path segments) or a
  \<open>MultiDictProxy\<close> that wraps a mapping together with the schema; the mapping wrapped
  for the query string is a multi-dict, an ordered list of pairs in which a key may
  occur more than once.
\<close>

type_synonym 'v dict = "(string \<times> 'v) list"

text \<open>A raw value: what JSON, a query string or a path segment can carry.\<close>

datatype raw = RNull | RBool bool | RInt int | RStr string | RList "raw list"

datatype ('v, 's) data = Dict "'v dict" | MultiDictProxy "'v dict" 's

text \<open>
  The three location readers \<open>parser.load_json\<close>, \<open>parser.load_querystring\<close> and
  \<open>parser.load_view_args\<close> belong to the webargs library; what each of them finds in
  the request is a field of the request, \<open>None\<close> when the reader returns \<open>missing\<close>.
\<close>

record 'v request =
  json_body :: "'v dict option"
  query_args :: "'v dict option"
  path_view_args :: "'v dict option"

definition load_json :: "'v request \<Rightarrow> 's \<Rightarrow> ('v, 's) data option" where
  "load_json request schema = map_option Dict (json_body request)"

definition load_querystring :: "'v request \<Rightarrow> 's \<Rightarrow> ('v, 's) data option" where
  "load_querystring request schema =
     map_option (\<lambda>args. MultiDictProxy args schema) (query_args request)"

definition load_view_args :: "'v request \<Rightarrow> 's \<Rightarrow> 'v dict option" where
  "load_view_args request schema = path_view_args request"

subsection \<open>Dictionary operations\<close>

text \<open>\<open>d[key] = value\<close>: an existing key keeps its place, a new key goes last.\<close>

fun setitem :: "'v dict \<Rightarrow> string \<Rightarrow> 'v \<Rightarrow> 'v dict" where
  "setitem [] key val = [(key, val)]"
| "setitem ((k, v) # d) key val =
     (if k = key then (key, val) # d else (k, v) # setitem d key val)"

text \<open>
  \<open>MultiDict.to_dict()\<close> of werkzeug: a flat \<open>dict\<close> that keeps, for every key, the
  first of its values.
\<close>

fun to_dict_from :: "'v dict \<Rightarrow> 'v dict \<Rightarrow> 'v dict" where
  "to_dict_from acc [] = acc"
| "to_dict_from acc ((k, v) # m) =
     to_dict_from (if k \<in> set (map fst acc) then acc else acc @ [(k, v)]) m"

definition to_dict :: "'v dict \<Rightarrow> 'v dict" where
  "to_dict m = to_dict_from [] m"

text \<open>The mapping a value holds, and \<open>data == {}\<close>.\<close>

fun items :: "('v, 's) data \<Rightarrow> 'v dict" where
  "items (Dict d) = d"
| "items (MultiDictProxy m schema) = m"

definition is_empty_dict :: "('v, 's) data \<Rightarrow> bool" where
  "is_empty_dict data = (items data = [])"

definition keys :: "('v, 's) data \<Rightarrow> string set" where
  "keys data = fst ` set (items data)"

definition getitem :: "('v, 's) data \<Rightarrow> string \<Rightarrow> 'v option" where
  "getitem data key = map_of (items data) key"

text \<open>The field names one source of a request supplies; none when it is missing.\<close>

definition source_keys :: "'v dict option \<Rightarrow> string set" where
  "source_keys source = (case source of None \<Rightarrow> {} | Some d \<Rightarrow> fst ` set d)"

section \<open>The composite loaders\<close>

text \<open>
  \<open>for key, value in view_args.items(): all_data[key] = value\<close>
\<close>

fun write_view_args :: "'v dict \<Rightarrow> 'v dict \<Rightarrow> 'v dict" where
  "write_view_args all_data [] = all_data"
| "write_view_args all_data ((key, val) # rest) =
     write_view_args (setitem all_data key val) rest"

definition combine_data_and_view_args ::
  "('v, 's) data \<Rightarrow> 'v dict option \<Rightarrow> 's \<Rightarrow> ('v, 's) data" where
  "combine_data_and_view_args data view_args schema =
     (case view_args of
        None \<Rightarrow> data
      | Some va \<Rightarrow>
          if is_empty_dict data then MultiDictProxy va schema
          else
            let all_data = (case data of MultiDictProxy m s \<Rightarrow> to_dict m | Dict d \<Rightarrow> d)
            in MultiDictProxy (write_view_args all_data va) schema)"

definition load_json_viewargs_data :: "'v request \<Rightarrow> 's \<Rightarrow> ('v, 's) data option" where
  "load_json_viewargs_data request schema =
     (let view_args = load_view_args request schema;
          data = load_json request schema
      in case data of
           None \<Rightarrow> None
         | Some d \<Rightarrow> Some (combine_data_and_view_args d view_args schema))"

definition load_json_query_data :: "'v request \<Rightarrow> 's \<Rightarrow> ('v, 's) data option" where
  "load_json_query_data request schema =
     (let data = load_json request schema
      in case data of
           Some d \<Rightarrow> Some d
         | None \<Rightarrow> load_querystring request schema)"

definition load_json_query_viewargs_data ::
  "'v request \<Rightarrow> 's \<Rightarrow> ('v, 's) data option" where
  "load_json_query_viewargs_data request schema =
     (let view_args = load_view_args request schema;
          data = load_json request schema;
          data = (case data of None \<Rightarrow> load_querystring request schema | Some d \<Rightarrow> Some d)
      in case data of
           None \<Rightarrow> None
         | Some d \<Rightarrow> Some (combine_data_and_view_args d view_args schema))"

text \<open>
  \<open>_combine_data_and_view_args\<close> assigns into \<open>data\<close> itself when \<open>data\<close> is a plain,
  non-empty \<open>dict\<close> (\<open>all_data\<close> is then the same object). This is the content of the
  object passed as \<open>data\<close> when the function returns.
\<close>

definition combine_data_and_view_args_written ::
  "('v, 's) data \<Rightarrow> 'v dict option \<Rightarrow> ('v, 's) data" where
  "combine_data_and_view_args_written data view_args =
     (case view_args of
        None \<Rightarrow> data
      | Some va \<Rightarrow>
          if is_empty_dict data then data
          else (case data of
                  MultiDictProxy m s \<Rightarrow> data
                | Dict d \<Rightarrow> Dict (write_view_args d va)))"

text \<open>
  The loaders are registered with the parser under a location name; an endpoint names
  the location it reads.
\<close>

datatype location = json_and_view_args | json_and_query | json_and_query_and_view_args

fun location_loader :: "location \<Rightarrow> 'v request \<Rightarrow> 's \<Rightarrow> ('v, 's) data option" where
  "location_loader json_and_view_args = load_json_viewargs_data"
| "location_loader json_and_query = load_json_query_data"
| "location_loader json_and_query_and_view_args = load_json_query_viewargs_data"

section \<open>Schema descriptor and validator\<close>

text \<open>
  Modelled from the spec: the schema classes of \<open>rotkehlchen/api/v1/encoding.py\<close> and
  the validation they go through are not among the sources. A schema descriptor is the
  ordered list of its fields: name, required or not, default, and the per-field rule
  that coerces a raw value to a typed one and checks its constraints (\<open>None\<close>: the
  value is rejected). Validation fails with the offending field names and a cause when
  a required field is missing, when a value is rejected by its rule, or when the
  payload holds a name the schema does not declare; an absent optional field takes its
  default, when it has one.
\<close>

record ('v, 't) field =
  field_name :: string
  field_required :: bool
  field_default :: "'t option"
  field_rule :: "'v \<Rightarrow> 't option"

type_synonym ('v, 't) schema = "('v, 't) field list"

datatype cause = MissingRequired | Invalid | UnknownField

datatype validation_error = ValidationError "(string \<times> cause) list"

definition validate_field ::
  "('v, 't) field \<Rightarrow> 'v dict \<Rightarrow> (string \<times> cause) + (string \<times> 't) option" where
  "validate_field f payload =
     (case map_of payload (field_name f) of
        None \<Rightarrow>
          if field_required f then Inl (field_name f, MissingRequired)
          else Inr (map_option (\<lambda>t. (field_name f, t)) (field_default f))
      | Some v \<Rightarrow>
          (case field_rule f v of
             None \<Rightarrow> Inl (field_name f, Invalid)
           | Some t \<Rightarrow> Inr (Some (field_name f, t))))"

fun field_errors :: "('v, 't) schema \<Rightarrow> 'v dict \<Rightarrow> (string \<times> cause) list" where
  "field_errors [] payload = []"
| "field_errors (f # fs) payload =
     (case validate_field f payload of
        Inl e \<Rightarrow> e # field_errors fs payload
      | Inr kv \<Rightarrow> field_errors fs payload)"

fun field_values :: "('v, 't) schema \<Rightarrow> 'v dict \<Rightarrow> 't dict" where
  "field_values [] payload = []"
| "field_values (f # fs) payload =
     (case validate_field f payload of
        Inr (Some kv) \<Rightarrow> kv # field_values fs payload
      | _ \<Rightarrow> field_values fs payload)"

definition unknown_fields :: "('v, 't) schema \<Rightarrow> 'v dict \<Rightarrow> (string \<times> cause) list" where
  "unknown_fields schema payload =
     map (\<lambda>k. (k, UnknownField))
       (filter (\<lambda>k. k \<notin> set (map field_name schema)) (map fst payload))"

definition validate :: "'v dict \<Rightarrow> ('v, 't) schema \<Rightarrow> validation_error + 't dict" where
  "validate payload schema =
     (let errors = field_errors schema payload @ unknown_fields schema payload
      in if errors = [] then Inr (field_values schema payload)
         else Inl (ValidationError errors))"

text \<open>
  Modelled from the spec: field rules for the scenario of the time range and location
  query (integer epoch seconds, an enumeration given by its serialised names, a
  boolean), over raw values.
\<close>

datatype typed = TInt int | TBool bool | TEnum string

definition digit_value :: "char \<Rightarrow> nat option" where
  "digit_value c = map_of (zip ''0123456789'' [0, 1, 2, 3, 4, 5, 6, 7, 8, 9]) c"

fun decimal_from :: "nat \<Rightarrow> string \<Rightarrow> nat option" where
  "decimal_from acc [] = Some acc"
| "decimal_from acc (c # cs) =
     (case digit_value c of None \<Rightarrow> None | Some d \<Rightarrow> decimal_from (10 * acc + d) cs)"

fun int_rule :: "raw \<Rightarrow> typed option" where
  "int_rule (RInt n) = Some (TInt n)"
| "int_rule (RStr s) =
     (if s = [] then None else map_option (\<lambda>n. TInt (int n)) (decimal_from 0 s))"
| "int_rule _ = None"

fun enum_rule :: "(string \<times> string) list \<Rightarrow> raw \<Rightarrow> typed option" where
  "enum_rule members (RStr s) = map_option TEnum (map_of members s)"
| "enum_rule members _ = None"

definition lower :: "string \<Rightarrow> string" where
  "lower s =
     map (\<lambda>c. case map_of (zip ''ABCDEFGHIJKLMNOPQRSTUVWXYZ''
                                 ''abcdefghijklmnopqrstuvwxyz'') c of
                None \<Rightarrow> c | Some l \<Rightarrow> l) s"

fun bool_rule :: "string list \<Rightarrow> string list \<Rightarrow> raw \<Rightarrow> typed option" where
  "bool_rule truthy falsy (RBool b) = Some (TBool b)"
| "bool_rule truthy falsy (RStr s) =
     (if lower s \<in> set truthy then Some (TBool True)
      else if lower s \<in> set falsy then Some (TBool False) else None)"
| "bool_rule truthy falsy _ = None"

definition timerange_location_schema :: "(raw, typed) schema" where
  "timerange_location_schema =
     [\<lparr>field_name = ''from_timestamp'', field_required = True, field_default = None,
        field_rule = int_rule\<rparr>,
      \<lparr>field_name = ''to_timestamp'', field_required = True, field_default = None,
        field_rule = int_rule\<rparr>,
      \<lparr>field_name = ''location'', field_required = True, field_default = None,
        field_rule = enum_rule [(''binance'', ''BINANCE''), (''kraken'', ''KRAKEN'')]\<rparr>,
      \<lparr>field_name = ''async_query'', field_required = False,
        field_default = Some (TBool False),
        field_rule = bool_rule [''true'', ''1''] [''false'', ''0'']\<rparr>]"

section \<open>Endpoint dispatch\<close>

text \<open>
  Modelled from the spec: the decorators \<open>use_kwargs\<close> of webargs and
  \<open>resource_parser.use_kwargs\<close> of \<open>rotkehlchen/api/v1/parser.py\<close> are not among the
  sources. On each call the dispatcher resolves the schema (a static descriptor, or a
  factory applied to the resource object), runs the loader of the bound location,
  validates the merged payload (the empty mapping when the loader returns
  \<open>missing\<close>) and, when validation succeeds, invokes the handler with the validated
  arguments and returns its result. The trace lists what was run, in order.
\<close>

datatype ('self, 's) argmap = Static 's | Factory "'self \<Rightarrow> 's"

datatype ('s, 't) event =
  SchemaBuilt 's | LoaderRan location | ValidatorRan | HandlerInvoked "'t dict"

fun is_SchemaBuilt :: "('s, 't) event \<Rightarrow> bool" where
  "is_SchemaBuilt (SchemaBuilt s) = True"
| "is_SchemaBuilt _ = False"


text \<open>The schema to validate with, and the schemas built to obtain it.\<close>

fun resolve_schema :: "('self, 's) argmap \<Rightarrow> 'self \<Rightarrow> 's \<times> 's list" where
  "resolve_schema (Static schema) self = (schema, [])"
| "resolve_schema (Factory build) self = (let schema = build self in (schema, [schema]))"

definition merged_payload :: "('v, 's) data option \<Rightarrow> 'v dict" where
  "merged_payload data = (case data of None \<Rightarrow> [] | Some d \<Rightarrow> items d)"

definition validate_request ::
  "location \<Rightarrow> 'v request \<Rightarrow> ('v, 't) schema \<Rightarrow> validation_error + 't dict" where
  "validate_request location request schema =
     validate (merged_payload (location_loader location request schema)) schema"

definition use_kwargs ::
  "('self, ('v, 't) schema) argmap \<Rightarrow> location \<Rightarrow> ('self \<Rightarrow> 't dict \<Rightarrow> 'r) \<Rightarrow>
   'self \<Rightarrow> 'v request \<Rightarrow> (('v, 't) schema, 't) event list \<times> (validation_error + 'r)" where
  "use_kwargs argmap location handler self request =
     (let (schema, built) = resolve_schema argmap self
      in case validate_request location request schema of
           Inl err \<Rightarrow> (map SchemaBuilt built @ [LoaderRan location, ValidatorRan], Inl err)
         | Inr args \<Rightarrow>
             (map SchemaBuilt built
                @ [LoaderRan location, ValidatorRan, HandlerInvoked args],
              Inr (handler self args)))"

subsection \<open>\<open>BlockchainsAccountsResource\<close>\<close>

text \<open>
  The resource object gives access to \<open>self.rest_api.rotkehlchen.chain_manager.ethereum\<close>,
  the ethereum connector of the chain manager as it is when the attribute is read: the
  resource object passed to a dispatch is the state of the process at that request.
  The three schema classes are constructors of \<open>encoding.py\<close> that take the connector;
  they are parameters here, as are the handlers, which call into the REST API.
\<close>

record 'c resource =
  chain_manager_ethereum :: 'c

definition make_put_schema :: "('c \<Rightarrow> 's) \<Rightarrow> 'c resource \<Rightarrow> 's" where
  "make_put_schema BlockchainAccountsPutSchema self =
     BlockchainAccountsPutSchema (chain_manager_ethereum self)"

definition make_patch_schema :: "('c \<Rightarrow> 's) \<Rightarrow> 'c resource \<Rightarrow> 's" where
  "make_patch_schema BlockchainAccountsPatchSchema self =
     BlockchainAccountsPatchSchema (chain_manager_ethereum self)"

definition make_delete_schema :: "('c \<Rightarrow> 's) \<Rightarrow> 'c resource \<Rightarrow> 's" where
  "make_delete_schema BlockchainAccountsDeleteSchema self =
     BlockchainAccountsDeleteSchema (chain_manager_ethereum self)"

definition BlockchainsAccountsResource_put where
  "BlockchainsAccountsResource_put BlockchainAccountsPutSchema put =
     use_kwargs (Factory (make_put_schema BlockchainAccountsPutSchema)) json_and_view_args put"

definition BlockchainsAccountsResource_patch where
  "BlockchainsAccountsResource_patch BlockchainAccountsPatchSchema patch =
     use_kwargs (Factory (make_patch_schema BlockchainAccountsPatchSchema))
       json_and_view_args patch"

definition BlockchainsAccountsResource_delete where
  "BlockchainsAccountsResource_delete BlockchainAccountsDeleteSchema delete =
     use_kwargs (Factory (make_delete_schema BlockchainAccountsDeleteSchema))
       json_and_view_args delete"

section \<open>The loaders over a store of objects\<close>

text \<open>
  Python hands \<open>dict\<close> objects around by reference, and \<open>_combine_data_and_view_args\<close>
  assigns into one. In the store, the request owns two objects, its path segments
  \<open>request.view_args\<close> and its query arguments \<open>request.args\<close>; every other \<open>dict\<close> is
  allocated while a loader runs. The body is text: \<open>parser.load_json\<close> parses it into a
  new \<open>dict\<close> on each call, \<open>parser.load_view_args\<close> returns \<open>request.view_args\<close> itself
  and \<open>parser.load_querystring\<close> wraps \<open>request.args\<close> itself.
\<close>

datatype ref = ViewArgs | Args | New nat

datatype 's data_ref = DictRef ref | MultiDictProxyRef ref 's

record 'v store =
  the_request :: "'v request"
  allocated :: "'v dict list"

definition deref :: "'v store \<Rightarrow> ref \<Rightarrow> 'v dict" where
  "deref st r =
     (case r of
        ViewArgs \<Rightarrow> (case path_view_args (the_request st) of None \<Rightarrow> [] | Some d \<Rightarrow> d)
      | Args \<Rightarrow> (case query_args (the_request st) of None \<Rightarrow> [] | Some d \<Rightarrow> d)
      | New n \<Rightarrow> (if n < length (allocated st) then allocated st ! n else []))"

definition alloc :: "'v dict \<Rightarrow> 'v store \<Rightarrow> ref \<times> 'v store" where
  "alloc d st = (New (length (allocated st)), st\<lparr>allocated := allocated st @ [d]\<rparr>)"

text \<open>\<open>obj[key] = value\<close> on the object a reference points to.\<close>

definition assign :: "ref \<Rightarrow> string \<Rightarrow> 'v \<Rightarrow> 'v store \<Rightarrow> 'v store" where
  "assign r key val st =
     (case r of
        ViewArgs \<Rightarrow>
          st\<lparr>the_request := (the_request st)
               \<lparr>path_view_args :=
                  map_option (\<lambda>d. setitem d key val) (path_view_args (the_request st))\<rparr>\<rparr>
      | Args \<Rightarrow>
          st\<lparr>the_request := (the_request st)
               \<lparr>query_args :=
                  map_option (\<lambda>d. setitem d key val) (query_args (the_request st))\<rparr>\<rparr>
      | New n \<Rightarrow>
          if n < length (allocated st)
          then st\<lparr>allocated := (allocated st)[n := setitem (allocated st ! n) key val]\<rparr>
          else st)"

fun assign_items :: "ref \<Rightarrow> 'v dict \<Rightarrow> 'v store \<Rightarrow> 'v store" where
  "assign_items all_data [] st = st"
| "assign_items all_data ((key, val) # rest) st =
     assign_items all_data rest (assign all_data key val st)"

fun target :: "'s data_ref \<Rightarrow> ref" where
  "target (DictRef r) = r"
| "target (MultiDictProxyRef r schema) = r"

fun content :: "'v store \<Rightarrow> 's data_ref \<Rightarrow> ('v, 's) data" where
  "content st (DictRef r) = Dict (deref st r)"
| "content st (MultiDictProxyRef r schema) = MultiDictProxy (deref st r) schema"

definition load_json_st :: "'v store \<Rightarrow> 's data_ref option \<times> 'v store" where
  "load_json_st st =
     (case json_body (the_request st) of
        None \<Rightarrow> (None, st)
      | Some b \<Rightarrow> (let (r, st') = alloc b st in (Some (DictRef r), st')))"

definition load_querystring_st :: "'s \<Rightarrow> 'v store \<Rightarrow> 's data_ref option" where
  "load_querystring_st schema st =
     (case query_args (the_request st) of
        None \<Rightarrow> None
      | Some args \<Rightarrow> Some (MultiDictProxyRef Args schema))"

definition load_view_args_st :: "'v store \<Rightarrow> ref option" where
  "load_view_args_st st =
     (case path_view_args (the_request st) of None \<Rightarrow> None | Some d \<Rightarrow> Some ViewArgs)"

definition combine_data_and_view_args_st ::
  "'s data_ref \<Rightarrow> ref option \<Rightarrow> 's \<Rightarrow> 'v store \<Rightarrow> 's data_ref \<times> 'v store" where
  "combine_data_and_view_args_st data view_args schema st =
     (case view_args of
        None \<Rightarrow> (data, st)
      | Some va \<Rightarrow>
          if deref st (target data) = [] then (MultiDictProxyRef va schema, st)
          else
            let (all_data, st1) =
                  (case data of
                     MultiDictProxyRef r s \<Rightarrow> alloc (to_dict (deref st r)) st
                   | DictRef r \<Rightarrow> (r, st));
                st2 = assign_items all_data (deref st1 va) st1
            in (MultiDictProxyRef all_data schema, st2))"

definition load_json_viewargs_data_st ::
  "'s \<Rightarrow> 'v store \<Rightarrow> 's data_ref option \<times> 'v store" where
  "load_json_viewargs_data_st schema st =
     (let view_args = load_view_args_st st;
          (data, st1) = load_json_st st
      in case data of
           None \<Rightarrow> (None, st1)
         | Some d \<Rightarrow>
             (let (r, st2) = combine_data_and_view_args_st d view_args schema st1
              in (Some r, st2)))"

definition load_json_query_data_st ::
  "'s \<Rightarrow> 'v store \<Rightarrow> 's data_ref option \<times> 'v store" where
  "load_json_query_data_st schema st =
     (let (data, st1) = load_json_st st
      in case data of
           Some d \<Rightarrow> (Some d, st1)
         | None \<Rightarrow> (load_querystring_st schema st1, st1))"

definition load_json_query_viewargs_data_st ::
  "'s \<Rightarrow> 'v store \<Rightarrow> 's data_ref option \<times> 'v store" where
  "load_json_query_viewargs_data_st schema st =
     (let view_args = load_view_args_st st;
          (data, st1) = load_json_st st;
          data = (case data of None \<Rightarrow> load_querystring_st schema st1 | Some d \<Rightarrow> Some d)
      in case data of
           None \<Rightarrow> (None, st1)
         | Some d \<Rightarrow>
             (let (r, st2) = combine_data_and_view_args_st d view_args schema st1
              in (Some r, st2)))"

fun location_loader_st ::
  "location \<Rightarrow> 's \<Rightarrow> 'v store \<Rightarrow> 's data_ref option \<times> 'v store" where
  "location_loader_st json_and_view_args = load_json_viewargs_data_st"
| "location_loader_st json_and_query = load_json_query_data_st"
| "location_loader_st json_and_query_and_view_args = load_json_query_viewargs_data_st"

text \<open>A loader run followed by validation of what it returned.\<close>

definition validate_request_st ::
  "location \<Rightarrow> ('v, 't) schema \<Rightarrow> 'v store \<Rightarrow> (validation_error + 't dict) \<times> 'v store" where
  "validate_request_st location schema st =
     (let (data, st') = location_loader_st location schema st
      in (validate (merged_payload (map_option (content st') data)) schema, st'))"

section \<open>Facts about the dictionary operations\<close>

lemma map_of_setitem: "map_of (setitem d key val) = (map_of d)(key \<mapsto> val)"
  by (induction d key val rule: setitem.induct) (auto simp: fun_eq_iff)

lemma keys_setitem: "fst ` set (setitem d key val) = insert key (fst ` set d)"
  by (induction d key val rule: setitem.induct) auto

lemma map_of_write_view_args:
  "distinct (map fst va) \<Longrightarrow> map_of (write_view_args d va) = map_of d ++ map_of va"
proof (induction va arbitrary: d)
  case Nil
  then show ?case by simp
next
  case (Cons p va)
  obtain k v where p: "p = (k, v)" by (cases p)
  from Cons.prems p have k: "k \<notin> dom (map_of va)" and dist: "distinct (map fst va)"
    by (auto simp: dom_map_of_conv_image_fst)
  have "map_of (write_view_args d (p # va)) = (map_of d)(k \<mapsto> v) ++ map_of va"
    unfolding p using Cons.IH [OF dist, of "setitem d k v"]
    by (simp only: write_view_args.simps map_of_setitem)
  also have "\<dots> = map_of d ++ (map_of va)(k \<mapsto> v)"
    using k by (auto simp: fun_eq_iff map_add_def split: option.splits)
  also have "(map_of va)(k \<mapsto> v) = map_of (p # va)"
    by (simp add: p)
  finally show ?case .
qed

lemma keys_write_view_args:
  "fst ` set (write_view_args d va) = fst ` set d \<union> fst ` set va"
  by (induction d va rule: write_view_args.induct) (simp_all add: keys_setitem)

lemma map_of_to_dict_from:
  "map_of (to_dict_from acc m) x =
     (case map_of acc x of Some v \<Rightarrow> Some v | None \<Rightarrow> map_of m x)"
proof (induction m arbitrary: acc)
  case Nil
  then show ?case by (simp split: option.splits)
next
  case (Cons p m)
  obtain k v where p: "p = (k, v)" by (cases p)
  show ?case
  proof (cases "k \<in> fst ` set acc")
    case True
    then obtain w where "map_of acc k = Some w"
      by (meson map_of_eq_None_iff not_Some_eq)
    with True show ?thesis
      by (simp add: p Cons.IH split: option.splits)
  next
    case False
    then have "map_of acc k = None"
      by (simp add: map_of_eq_None_iff)
    with False show ?thesis
      by (simp add: p Cons.IH map_add_def split: option.splits)
  qed
qed

lemma map_of_to_dict: "map_of (to_dict m) = map_of m"
  by (simp add: to_dict_def map_of_to_dict_from fun_eq_iff)

lemma keys_to_dict_from: "fst ` set (to_dict_from acc m) = fst ` set acc \<union> fst ` set m"
  by (induction acc m rule: to_dict_from.induct) auto

lemma keys_to_dict: "fst ` set (to_dict m) = fst ` set m"
  by (simp add: to_dict_def keys_to_dict_from)

lemma to_dict_from_eq_Nil: "to_dict_from acc m = [] \<longleftrightarrow> acc = [] \<and> m = []"
  by (induction acc m rule: to_dict_from.induct) auto

lemma map_of_write_view_args_other:
  "key \<notin> fst ` set va \<Longrightarrow> map_of (write_view_args d va) key = map_of d key"
  by (induction d va rule: write_view_args.induct) (auto simp: map_of_setitem)

lemma map_of_write_view_args_path:
  "distinct (map fst va) \<Longrightarrow> map_of va key = Some val \<Longrightarrow>
   map_of (write_view_args d va) key = Some val"
  by (simp add: map_of_write_view_args)

lemma getitem_combine_path:
  "distinct (map fst va) \<Longrightarrow> map_of va key = Some val \<Longrightarrow>
   getitem (combine_data_and_view_args data (Some va) schema) key = Some val"
  by (simp add: combine_data_and_view_args_def getitem_def map_of_write_view_args_path Let_def)

lemma getitem_combine_other:
  "key \<notin> fst ` set va \<Longrightarrow>
   getitem (combine_data_and_view_args data (Some va) schema) key = getitem data key"
  by (cases data)
     (auto simp: combine_data_and_view_args_def getitem_def is_empty_dict_def
        map_of_write_view_args_other map_of_to_dict map_of_eq_None_iff)

lemma keys_combine:
  "keys (combine_data_and_view_args data (Some va) schema) = keys data \<union> fst ` set va"
  by (cases data)
     (auto simp: combine_data_and_view_args_def keys_def is_empty_dict_def
        keys_write_view_args keys_to_dict)

lemma load_json_query_viewargs_data_body:
  "json_body request = Some b \<Longrightarrow>
   load_json_query_viewargs_data request schema =
     Some (combine_data_and_view_args (Dict b) (path_view_args request) schema)"
  by (simp add: load_json_query_viewargs_data_def load_json_def load_view_args_def)

lemma load_json_query_viewargs_data_query:
  "json_body request = None \<Longrightarrow> query_args request = Some q \<Longrightarrow>
   load_json_query_viewargs_data request schema =
     Some (combine_data_and_view_args (MultiDictProxy q schema) (path_view_args request) schema)"
  by (simp add: load_json_query_viewargs_data_def load_json_def load_view_args_def
      load_querystring_def)

lemma load_json_viewargs_data_body:
  "json_body request = Some b \<Longrightarrow>
   load_json_viewargs_data request schema =
     Some (combine_data_and_view_args (Dict b) (path_view_args request) schema)"
  by (simp add: load_json_viewargs_data_def load_json_def load_view_args_def)

lemma load_json_query_data_body:
  "json_body request = Some b \<Longrightarrow> load_json_query_data request schema = Some (Dict b)"
  by (simp add: load_json_query_data_def load_json_def)

lemma getitem_Dict: "getitem (Dict b) key = map_of b key"
  by (simp add: getitem_def)

lemma keys_Dict: "keys (Dict b) = fst ` set b"
  by (simp add: keys_def)

lemma getitem_None_iff: "getitem r key = None \<longleftrightarrow> key \<notin> keys r"
  by (simp add: getitem_def keys_def map_of_eq_None_iff)

section \<open>Facts about validation and dispatch\<close>








lemma use_kwargs_schema:
  "use_kwargs argmap location handler self request =
     (case validate_request location request (fst (resolve_schema argmap self)) of
        Inl err \<Rightarrow>
          (map SchemaBuilt (snd (resolve_schema argmap self))
             @ [LoaderRan location, ValidatorRan], Inl err)
      | Inr args \<Rightarrow>
          (map SchemaBuilt (snd (resolve_schema argmap self))
             @ [LoaderRan location, ValidatorRan, HandlerInvoked args],
           Inr (handler self args)))"
  by (simp add: use_kwargs_def split_beta)

lemma use_kwargs_Factory:
  "\<exists>rest response.
     use_kwargs (Factory build) location handler self request =
       (SchemaBuilt (build self) # LoaderRan location # rest, response)
     \<and> filter is_SchemaBuilt rest = []
     \<and> response = snd (use_kwargs (Static (build self)) location handler self request)"
  by (simp add: use_kwargs_schema Let_def split: sum.splits)

section \<open>Facts about the loaders over the store\<close>

lemma assign_items_New:
  "n < length (allocated st) \<Longrightarrow>
   assign_items (New n) va st
     = st\<lparr>allocated := (allocated st)[n := write_view_args (allocated st ! n) va]\<rparr>"
proof (induction va arbitrary: st)
  case Nil
  then show ?case by simp
next
  case (Cons p va)
  obtain key val where p: "p = (key, val)" by (cases p)
  let ?st = "assign (New n) key val st"
  from Cons.prems have st: "?st = st\<lparr>allocated := (allocated st)[n := setitem (allocated st ! n) key val]\<rparr>"
    by (simp add: assign_def)
  with Cons.prems have "n < length (allocated ?st)" by simp
  from Cons.IH [OF this] show ?case
    using Cons.prems by (simp add: p st)
qed

lemma combine_st_Dict:
  assumes "n < length (allocated st)"
    and "combine_data_and_view_args_st (DictRef (New n)) (load_view_args_st st) schema st
           = (r, st')"
  shows "the_request st' = the_request st
       \<and> content st' r
           = combine_data_and_view_args (Dict (allocated st ! n))
               (path_view_args (the_request st)) schema"
proof (cases "path_view_args (the_request st)")
  case None
  with assms show ?thesis
    by (auto simp: combine_data_and_view_args_st_def load_view_args_st_def
        combine_data_and_view_args_def deref_def)
next
  case (Some va)
  with assms show ?thesis
    by (auto simp: combine_data_and_view_args_st_def load_view_args_st_def
        combine_data_and_view_args_def deref_def is_empty_dict_def assign_items_New
        split: if_splits)
qed

lemma combine_st_Proxy:
  assumes "combine_data_and_view_args_st (MultiDictProxyRef Args schema)
             (load_view_args_st st) schema st = (r, st')"
    and "query_args (the_request st) = Some q"
  shows "the_request st' = the_request st
       \<and> content st' r
           = combine_data_and_view_args (MultiDictProxy q schema)
               (path_view_args (the_request st)) schema"
proof (cases "path_view_args (the_request st)")
  case None
  with assms show ?thesis
    by (auto simp: combine_data_and_view_args_st_def load_view_args_st_def
        combine_data_and_view_args_def deref_def)
next
  case (Some va)
  with assms show ?thesis
    by (auto simp: combine_data_and_view_args_st_def load_view_args_st_def
        combine_data_and_view_args_def deref_def is_empty_dict_def assign_items_New
        alloc_def split: if_splits)
qed

lemma load_view_args_st_request:
  "the_request st1 = the_request st \<Longrightarrow> load_view_args_st st1 = load_view_args_st st"
  by (simp add: load_view_args_st_def)

lemma load_json_st_Some:
  assumes "json_body (the_request st) = Some b"
  shows "load_json_st st
         = (Some (DictRef (New (length (allocated st)))),
            st\<lparr>allocated := allocated st @ [b]\<rparr>)"
  using assms by (simp add: load_json_st_def alloc_def)

lemma combine_st_fresh_body:
  assumes "combine_data_and_view_args_st (DictRef (New (length (allocated st))))
             (load_view_args_st st) schema (st\<lparr>allocated := allocated st @ [b]\<rparr>)
           = (r, st')"
  shows "the_request st' = the_request st
       \<and> content st' r
           = combine_data_and_view_args (Dict b) (path_view_args (the_request st)) schema"
proof -
  let ?st1 = "st\<lparr>allocated := allocated st @ [b]\<rparr>"
  have n: "length (allocated st) < length (allocated ?st1)" by simp
  have v: "load_view_args_st ?st1 = load_view_args_st st"
    by (rule load_view_args_st_request) simp
  from combine_st_Dict [OF n, of schema r st'] assms v show ?thesis
    by simp
qed

lemma location_loader_st_correct:
  assumes "location_loader_st location schema st = (data, st')"
  shows "the_request st' = the_request st
       \<and> map_option (content st') data = location_loader location (the_request st) schema"
proof (cases "json_body (the_request st)")
  case None
  note body = None
  show ?thesis
  proof (cases location)
    case json_and_view_args
    with assms body show ?thesis
      by (auto simp: load_json_viewargs_data_st_def load_json_st_def
          load_json_viewargs_data_def load_json_def)
  next
    case json_and_query
    with assms body show ?thesis
      by (auto simp: load_json_query_data_st_def load_json_st_def load_querystring_st_def
          load_json_query_data_def load_json_def load_querystring_def deref_def
          split: option.splits)
  next
    case json_and_query_and_view_args
    show ?thesis
    proof (cases "query_args (the_request st)")
      case None
      with assms body json_and_query_and_view_args show ?thesis
        by (auto simp: load_json_query_viewargs_data_st_def load_json_st_def
            load_querystring_st_def load_json_query_viewargs_data_def load_json_def
            load_querystring_def)
    next
      case (Some q)
      with assms body json_and_query_and_view_args
      have "combine_data_and_view_args_st (MultiDictProxyRef Args schema)
              (load_view_args_st st) schema st = (the data, st')" and "data \<noteq> None"
        by (auto simp: load_json_query_viewargs_data_st_def load_json_st_def
            load_querystring_st_def split: prod.splits)
      from combine_st_Proxy [OF this(1) Some] this(2) show ?thesis
        using body Some json_and_query_and_view_args
        by (auto simp: load_json_query_viewargs_data_def load_json_def load_querystring_def
            load_view_args_def)
    qed
  qed
next
  case (Some b)
  note body = Some
  show ?thesis
  proof (cases location)
    case json_and_view_args
    with assms body
    have "combine_data_and_view_args_st (DictRef (New (length (allocated st))))
            (load_view_args_st st) schema (st\<lparr>allocated := allocated st @ [b]\<rparr>)
          = (the data, st')" and "data \<noteq> None"
      by (auto simp: load_json_viewargs_data_st_def load_json_st_Some split: prod.splits)
    from combine_st_fresh_body [OF this(1)] this(2) show ?thesis
      using body json_and_view_args
      by (auto simp: load_json_viewargs_data_def load_json_def load_view_args_def)
  next
    case json_and_query
    with assms body show ?thesis
      by (auto simp: load_json_query_data_st_def load_json_st_Some deref_def
          load_json_query_data_def load_json_def)
  next
    case json_and_query_and_view_args
    with assms body
    have "combine_data_and_view_args_st (DictRef (New (length (allocated st))))
            (load_view_args_st st) schema (st\<lparr>allocated := allocated st @ [b]\<rparr>)
          = (the data, st')" and "data \<noteq> None"
      by (auto simp: load_json_query_viewargs_data_st_def load_json_st_Some
          split: prod.splits)
    from combine_st_fresh_body [OF this(1)] this(2) show ?thesis
      using body json_and_query_and_view_args
      by (auto simp: load_json_query_viewargs_data_def load_json_def load_view_args_def)
  qed
qed

lemma validate_request_st_correct:
  assumes "validate_request_st location schema st = (result, st')"
  shows "the_request st' = the_request st
       \<and> result = validate_request location (the_request st) schema"
proof -
  obtain data st1 where l: "location_loader_st location schema st = (data, st1)"
    by (cases "location_loader_st location schema st")
  from location_loader_st_correct [OF l] assms l show ?thesis
    by (simp add: validate_request_st_def validate_request_def)
qed

section \<open>Merging under precedence\<close>

text \<open>
  Claim C1 as the specification states it: a field present in two sources takes the
  value of the higher-precedence source, the query string ranking above the body.
  The loaders read the query string only when there is no JSON body, so a field that
  both carry keeps the value of the body.
\<close>

theorem query_over_body_counterexample:
  "load_json_query_data
     \<lparr>json_body = Some [(''location'', RStr ''kraken'')],
      query_args = Some [(''location'', RStr ''binance'')],
      path_view_args = None\<rparr> ()
   = Some (Dict [(''location'', RStr ''kraken'')])
   \<and> load_json_query_viewargs_data
     \<lparr>json_body = Some [(''location'', RStr ''kraken'')],
      query_args = Some [(''location'', RStr ''binance'')],
      path_view_args = Some [(''name'', RStr ''x'')]\<rparr> ()
   = Some (MultiDictProxy [(''location'', RStr ''kraken''), (''name'', RStr ''x'')] ())"
  by (simp add: load_json_query_data_def load_json_query_viewargs_data_def load_json_def
      load_view_args_def combine_data_and_view_args_def is_empty_dict_def)

text \<open>
  Claim C1, amended: a JSON body that is present wins over the query string, which is
  then not read at all, with or without path segments: the body+query loader returns
  the body, and the body+query+path loader merges the path segments into the body, so
  that every field outside the path has the value the body gives it. The path segments
  overwrite the body (body+path) and overwrite whichever of body and query string was
  read (body+query+path).
\<close>

theorem precedence_of_sources:
  "(json_body request = Some b \<longrightarrow>
      load_json_query_data request schema = Some (Dict b)
    \<and> load_json_query_viewargs_data request schema
        = Some (combine_data_and_view_args (Dict b) (path_view_args request) schema)
    \<and> (\<exists>r. load_json_query_viewargs_data request schema = Some r
          \<and> (\<forall>key. key \<notin> source_keys (path_view_args request) \<longrightarrow>
                 getitem r key = map_of b key)))
   \<and> (path_view_args request = Some va \<and> distinct (map fst va) \<longrightarrow>
        (json_body request = Some b \<longrightarrow>
           (\<exists>r. load_json_viewargs_data request schema = Some r
               \<and> (\<forall>key val. map_of va key = Some val \<longrightarrow> getitem r key = Some val))
         \<and> (\<exists>r. load_json_query_viewargs_data request schema = Some r
               \<and> (\<forall>key val. map_of va key = Some val \<longrightarrow> getitem r key = Some val)))
      \<and> (json_body request = None \<and> query_args request = Some q \<longrightarrow>
           (\<exists>r. load_json_query_viewargs_data request schema = Some r
               \<and> (\<forall>key val. map_of va key = Some val \<longrightarrow> getitem r key = Some val))))"
proof (intro conjI impI)
  assume b: "json_body request = Some b"
  show "load_json_query_data request schema = Some (Dict b)"
    using b by (rule load_json_query_data_body)
  show "load_json_query_viewargs_data request schema
        = Some (combine_data_and_view_args (Dict b) (path_view_args request) schema)"
    using b by (rule load_json_query_viewargs_data_body)
  have "getitem (combine_data_and_view_args (Dict b) (path_view_args request) schema) key
        = map_of b key"
    if "key \<notin> source_keys (path_view_args request)" for key
  proof (cases "path_view_args request")
    case None
    then show ?thesis
      by (simp add: combine_data_and_view_args_def getitem_Dict)
  next
    case (Some p)
    with that have "key \<notin> fst ` set p"
      by (simp add: source_keys_def)
    then show ?thesis
      by (simp add: Some getitem_combine_other getitem_Dict)
  qed
  then show "\<exists>r. load_json_query_viewargs_data request schema = Some r
          \<and> (\<forall>key. key \<notin> source_keys (path_view_args request) \<longrightarrow>
                 getitem r key = map_of b key)"
    by (simp add: load_json_query_viewargs_data_body [OF b])
next
  assume va: "path_view_args request = Some va \<and> distinct (map fst va)"
    and b: "json_body request = Some b"
  show "\<exists>r. load_json_viewargs_data request schema = Some r
          \<and> (\<forall>key val. map_of va key = Some val \<longrightarrow> getitem r key = Some val)"
    using va by (simp add: load_json_viewargs_data_body [OF b] getitem_combine_path)
  show "\<exists>r. load_json_query_viewargs_data request schema = Some r
          \<and> (\<forall>key val. map_of va key = Some val \<longrightarrow> getitem r key = Some val)"
    using va by (simp add: load_json_query_viewargs_data_body [OF b] getitem_combine_path)
next
  assume va: "path_view_args request = Some va \<and> distinct (map fst va)"
    and q: "json_body request = None \<and> query_args request = Some q"
  show "\<exists>r. load_json_query_viewargs_data request schema = Some r
          \<and> (\<forall>key val. map_of va key = Some val \<longrightarrow> getitem r key = Some val)"
    using va q by (simp add: load_json_query_viewargs_data_query getitem_combine_path)
qed

theorem precedence_of_sources_witness:
  "load_json_query_data
     \<lparr>json_body = Some [(''location'', RStr ''kraken'')],
      query_args = Some [(''location'', RStr ''binance'')],
      path_view_args = None\<rparr> ()
     = Some (Dict [(''location'', RStr ''kraken'')])
   \<and> (\<exists>r. load_json_query_viewargs_data
     \<lparr>json_body = Some [(''location'', RStr ''kraken'')],
      query_args = Some [(''location'', RStr ''binance'')],
      path_view_args = None\<rparr> () = Some r
      \<and> getitem r ''location'' = Some (RStr ''kraken''))
   \<and> (\<exists>r. load_json_query_viewargs_data
     \<lparr>json_body = Some [(''a'', RInt 1), (''b'', RInt 1)],
      query_args = Some [(''a'', RInt 2), (''b'', RInt 2)],
      path_view_args = Some [(''a'', RInt 3)]\<rparr> () = Some r
      \<and> getitem r ''a'' = Some (RInt 3) \<and> getitem r ''b'' = Some (RInt 1))
   \<and> (\<exists>r. load_json_viewargs_data
     \<lparr>json_body = Some [(''a'', RInt 1), (''b'', RInt 1)],
      query_args = Some [(''a'', RInt 2), (''b'', RInt 2)],
      path_view_args = Some [(''a'', RInt 3)]\<rparr> () = Some r
      \<and> getitem r ''a'' = Some (RInt 3))
   \<and> (\<exists>r. load_json_query_viewargs_data
     \<lparr>json_body = None,
      query_args = Some [(''a'', RInt 2), (''b'', RInt 2)],
      path_view_args = Some [(''a'', RInt 3)]\<rparr> () = Some r
      \<and> getitem r ''a'' = Some (RInt 3))"
proof (intro conjI)
  let ?r1 = "\<lparr>json_body = Some [(''location'', RStr ''kraken'')],
               query_args = Some [(''location'', RStr ''binance'')],
               path_view_args = None :: raw dict option\<rparr>"
  let ?r2 = "\<lparr>json_body = Some [(''a'', RInt 1), (''b'', RInt 1)],
               query_args = Some [(''a'', RInt 2), (''b'', RInt 2)],
               path_view_args = Some [(''a'', RInt 3)]\<rparr>"
  let ?r3 = "\<lparr>json_body = None,
               query_args = Some [(''a'', RInt 2), (''b'', RInt 2)],
               path_view_args = Some [(''a'', RInt 3)]\<rparr>"
  note t1 = precedence_of_sources
    [where request = ?r1 and b = "[(''location'', RStr ''kraken'')]" and schema = "()"
       and va = "[]" and q = "[]"]
  note t2 = precedence_of_sources
    [where request = ?r2 and b = "[(''a'', RInt 1), (''b'', RInt 1)]" and schema = "()"
       and va = "[(''a'', RInt 3)]" and q = "[]"]
  note t3 = precedence_of_sources
    [where request = ?r3 and b = "[]" and schema = "()"
       and va = "[(''a'', RInt 3)]" and q = "[(''a'', RInt 2), (''b'', RInt 2)]"]
  show "load_json_query_data ?r1 () = Some (Dict [(''location'', RStr ''kraken'')])"
    using t1 by simp
  show "\<exists>r. load_json_query_viewargs_data ?r1 () = Some r
          \<and> getitem r ''location'' = Some (RStr ''kraken'')"
    using t1 by (auto simp: source_keys_def)
  show "\<exists>r. load_json_query_viewargs_data ?r2 () = Some r
          \<and> getitem r ''a'' = Some (RInt 3) \<and> getitem r ''b'' = Some (RInt 1)"
    using t2 by (auto simp: source_keys_def)
  show "\<exists>r. load_json_viewargs_data ?r2 () = Some r \<and> getitem r ''a'' = Some (RInt 3)"
    using t2 by auto
  show "\<exists>r. load_json_query_viewargs_data ?r3 () = Some r \<and> getitem r ''a'' = Some (RInt 3)"
    using t3 by auto
qed

text \<open>
  Claim C2 as the specification states it: with disjoint, non-empty field sets in
  body, query string and path, the merged payload holds the union of the three. The
  fields of the query string are not in the result when a body is present.
\<close>

theorem disjoint_fields_union_counterexample:
  "load_json_query_viewargs_data
     \<lparr>json_body = Some [(''from_timestamp'', RInt 0)],
      query_args = Some [(''to_timestamp'', RStr ''100'')],
      path_view_args = Some [(''name'', RStr ''kraken'')]\<rparr> ()
   = Some (MultiDictProxy [(''from_timestamp'', RInt 0), (''name'', RStr ''kraken'')] ())
   \<and> ''to_timestamp'' \<notin> keys
        (MultiDictProxy [(''from_timestamp'', RInt 0), (''name'', RStr ''kraken'')] ())"
  by (simp add: load_json_query_viewargs_data_def load_json_def keys_def
      load_view_args_def combine_data_and_view_args_def is_empty_dict_def)

text \<open>
  Claim C2, amended: with disjoint, non-empty field sets in body, query string and
  path, the merged payload of the body+query+path loader holds exactly the fields of
  the body and of the path, each with the value of its source, and none of the fields
  of the query string.
\<close>

theorem disjoint_fields_union:
  assumes "json_body request = Some b" and "query_args request = Some q"
    and "path_view_args request = Some p"
    and "b \<noteq> []" and "q \<noteq> []" and "p \<noteq> []"
    and "distinct (map fst p)"
    and "fst ` set b \<inter> fst ` set q = {}" and "fst ` set b \<inter> fst ` set p = {}"
    and "fst ` set q \<inter> fst ` set p = {}"
  shows "\<exists>r. load_json_query_viewargs_data request schema = Some r
           \<and> keys r = fst ` set b \<union> fst ` set p
           \<and> (\<forall>key \<in> fst ` set b. getitem r key = map_of b key)
           \<and> (\<forall>key \<in> fst ` set p. getitem r key = map_of p key)
           \<and> (\<forall>key \<in> fst ` set q. getitem r key = None)"
proof -
  let ?r = "combine_data_and_view_args (Dict b) (Some p) schema"
  have r: "load_json_query_viewargs_data request schema = Some ?r"
    using assms(1,3) by (simp add: load_json_query_viewargs_data_body)
  have k: "keys ?r = fst ` set b \<union> fst ` set p"
    by (simp add: keys_combine keys_Dict)
  have fb: "\<forall>key \<in> fst ` set b. getitem ?r key = map_of b key"
  proof
    fix key assume "key \<in> fst ` set b"
    with assms(9) have "key \<notin> fst ` set p" by blast
    then show "getitem ?r key = map_of b key"
      by (simp add: getitem_combine_other getitem_Dict)
  qed
  have fp: "\<forall>key \<in> fst ` set p. getitem ?r key = map_of p key"
  proof
    fix key assume "key \<in> fst ` set p"
    then obtain val where "map_of p key = Some val"
      by (meson map_of_eq_None_iff not_Some_eq)
    with assms(7) show "getitem ?r key = map_of p key"
      by (simp add: getitem_combine_path)
  qed
  have fq: "\<forall>key \<in> fst ` set q. getitem ?r key = None"
  proof
    fix key assume "key \<in> fst ` set q"
    with assms(8,10) have "key \<notin> fst ` set b \<union> fst ` set p" by blast
    then show "getitem ?r key = None"
      unfolding getitem_None_iff k .
  qed
  from r k fb fp fq show ?thesis by blast
qed

theorem disjoint_fields_union_witness:
  "\<exists>r. load_json_query_viewargs_data
     \<lparr>json_body = Some [(''from_timestamp'', RInt 0)],
      query_args = Some [(''to_timestamp'', RStr ''100'')],
      path_view_args = Some [(''name'', RStr ''kraken'')]\<rparr> () = Some r
     \<and> keys r = {''from_timestamp'', ''name''}
     \<and> getitem r ''from_timestamp'' = Some (RInt 0)
     \<and> getitem r ''name'' = Some (RStr ''kraken'')
     \<and> getitem r ''to_timestamp'' = None"
  using disjoint_fields_union
    [of "\<lparr>json_body = Some [(''from_timestamp'', RInt 0)],
           query_args = Some [(''to_timestamp'', RStr ''100'')],
           path_view_args = Some [(''name'', RStr ''kraken'')]\<rparr>"
        "[(''from_timestamp'', RInt 0)]" "[(''to_timestamp'', RStr ''100'')]"
        "[(''name'', RStr ''kraken'')]" "()"]
  by auto

text \<open>
  Claim C3 as the specification states it: with the JSON body missing and path
  segments bound, the body+path loader returns the path segments. It returns
  \<open>missing\<close>.
\<close>

theorem body_missing_drops_view_args_counterexample:
  "json_body \<lparr>json_body = None, query_args = None,
      path_view_args = Some [(''blockchain'', RStr ''ETH'')]\<rparr> = None
   \<and> load_json_viewargs_data \<lparr>json_body = None, query_args = None,
      path_view_args = Some [(''blockchain'', RStr ''ETH'')]\<rparr> () = None"
  by (simp add: load_json_viewargs_data_def load_json_def load_view_args_def)

text \<open>
  Claim C3, amended: the body+path loader returns \<open>missing\<close> whenever the JSON body
  is missing, whatever the path segments are; missing path segments, on the other
  hand, leave the data of the body as it is.
\<close>

theorem body_missing_gives_missing:
  "(json_body request = None \<longrightarrow> load_json_viewargs_data request schema = None)
   \<and> (json_body request = Some b \<and> path_view_args request = None \<longrightarrow>
        load_json_viewargs_data request schema = Some (Dict b))"
  by (simp add: load_json_viewargs_data_def load_json_def load_view_args_def
      combine_data_and_view_args_def)

theorem body_missing_gives_missing_witness:
  "load_json_viewargs_data \<lparr>json_body = None, query_args = None,
      path_view_args = Some [(''blockchain'', RStr ''ETH'')]\<rparr> () = None
   \<and> load_json_viewargs_data \<lparr>json_body = Some [(''accounts'', RList [])], query_args = None,
      path_view_args = None\<rparr> () = Some (Dict [(''accounts'', RList [])])"
  using body_missing_gives_missing
    [of "\<lparr>json_body = None, query_args = None,
           path_view_args = Some [(''blockchain'', RStr ''ETH'')]\<rparr>" "()"]
    body_missing_gives_missing
    [of "\<lparr>json_body = Some [(''accounts'', RList [])], query_args = None,
           path_view_args = None\<rparr>" "()" "[(''accounts'', RList [])]"]
  by simp

text \<open>
  Claim C4 as the specification states it: an empty body with a non-empty query
  string gives the result of the query string alone, in particular for the body
  \<open>{}\<close> and the query \<open>from_timestamp=0&to_timestamp=100&location=binance\<close>. A body
  \<open>{}\<close> is a JSON object, not a missing body: the body+query loader returns it, the
  query string is not read, and validation reports the three required fields missing.
\<close>

theorem empty_object_body_hides_query_counterexample:
  "load_json_query_data
     \<lparr>json_body = Some [],
      query_args = Some [(''from_timestamp'', RStr ''0''), (''to_timestamp'', RStr ''100''),
                         (''location'', RStr ''binance'')],
      path_view_args = None\<rparr> timerange_location_schema
   = Some (Dict [])
   \<and> validate_request json_and_query
     \<lparr>json_body = Some [],
      query_args = Some [(''from_timestamp'', RStr ''0''), (''to_timestamp'', RStr ''100''),
                         (''location'', RStr ''binance'')],
      path_view_args = None\<rparr> timerange_location_schema
   = Inl (ValidationError [(''from_timestamp'', MissingRequired),
        (''to_timestamp'', MissingRequired), (''location'', MissingRequired)])"
  by (simp add: load_json_query_data_def load_json_def validate_request_def
      merged_payload_def validate_def validate_field_def unknown_fields_def
      timerange_location_schema_def)

text \<open>
  Claim C4, amended: when the JSON body is missing, the body+query loader returns what
  the query-string reader returns, and validating the request is validating the
  query-string mapping alone. With no body at all, the query of the scenario validates
  to \<open>from_timestamp = 0\<close>, \<open>to_timestamp = 100\<close>, \<open>location = BINANCE\<close>,
  \<open>async_query = false\<close>.
\<close>

theorem missing_body_reads_query:
  assumes "json_body request = None"
  shows "load_json_query_data request schema = load_querystring request schema
       \<and> validate_request json_and_query request schema
           = validate (case query_args request of None \<Rightarrow> [] | Some q \<Rightarrow> q) schema"
  using assms
  by (simp add: load_json_query_data_def load_json_def validate_request_def
      merged_payload_def load_querystring_def split: option.splits)

theorem missing_body_reads_query_witness:
  "validate_request json_and_query
     \<lparr>json_body = None,
      query_args = Some [(''from_timestamp'', RStr ''0''), (''to_timestamp'', RStr ''100''),
                         (''location'', RStr ''binance'')],
      path_view_args = None\<rparr> timerange_location_schema
   = Inr [(''from_timestamp'', TInt 0), (''to_timestamp'', TInt 100),
          (''location'', TEnum ''BINANCE''), (''async_query'', TBool False)]"
  using missing_body_reads_query
    [where request = "\<lparr>json_body = None,
           query_args = Some [(''from_timestamp'', RStr ''0''),
                              (''to_timestamp'', RStr ''100''),
                              (''location'', RStr ''binance'')],
           path_view_args = None\<rparr>"
       and schema = timerange_location_schema]
  by (simp add: validate_def validate_field_def unknown_fields_def
      timerange_location_schema_def digit_value_def)

text \<open>
  Claim C5: when the JSON body is present, the query string contributes nothing to
  the body+query and the body+query+path loaders. The result of the first is the body;
  every key of the result of the second is a key of the body or of the path segments,
  a field outside both is not in it, and neither result changes when the query
  string does.
\<close>

theorem body_present_ignores_query:
  assumes "json_body request = Some b"
  shows "load_json_query_data request schema = Some (Dict b)
       \<and> (\<exists>r. load_json_query_viewargs_data request schema = Some r
             \<and> keys r \<subseteq> fst ` set b
                 \<union> (case path_view_args request of None \<Rightarrow> {} | Some va \<Rightarrow> fst ` set va)
             \<and> (\<forall>key. key \<notin> fst ` set b
                   \<and> key \<notin> (case path_view_args request of None \<Rightarrow> {}
                               | Some va \<Rightarrow> fst ` set va)
                   \<longrightarrow> getitem r key = None))
       \<and> load_json_query_data (request\<lparr>query_args := q'\<rparr>) schema
           = load_json_query_data request schema
       \<and> load_json_query_viewargs_data (request\<lparr>query_args := q'\<rparr>) schema
           = load_json_query_viewargs_data request schema"
proof (intro conjI)
  show "load_json_query_data request schema = Some (Dict b)"
    using assms by (rule load_json_query_data_body)
  let ?P = "case path_view_args request of None \<Rightarrow> {} | Some va \<Rightarrow> fst ` set va"
  let ?r = "combine_data_and_view_args (Dict b) (path_view_args request) schema"
  have k: "keys ?r = fst ` set b \<union> ?P"
    by (cases "path_view_args request")
       (simp_all add: keys_combine keys_Dict, simp add: combine_data_and_view_args_def keys_Dict)
  show "\<exists>r. load_json_query_viewargs_data request schema = Some r
          \<and> keys r \<subseteq> fst ` set b \<union> ?P
          \<and> (\<forall>key. key \<notin> fst ` set b \<and> key \<notin> ?P \<longrightarrow> getitem r key = None)"
    using k by (simp add: load_json_query_viewargs_data_body [OF assms] getitem_None_iff)
  show "load_json_query_data (request\<lparr>query_args := q'\<rparr>) schema
          = load_json_query_data request schema"
    using assms by (simp add: load_json_query_data_def load_json_def)
  show "load_json_query_viewargs_data (request\<lparr>query_args := q'\<rparr>) schema
          = load_json_query_viewargs_data request schema"
    using assms by (simp add: load_json_query_viewargs_data_def load_json_def load_view_args_def)
qed

theorem body_present_ignores_query_witness:
  "load_json_query_data
     \<lparr>json_body = Some [(''async_query'', RBool True)],
      query_args = Some [(''location'', RStr ''binance'')],
      path_view_args = Some [(''name'', RStr ''kraken'')]\<rparr> ()
     = Some (Dict [(''async_query'', RBool True)])
   \<and> (\<exists>r. load_json_query_viewargs_data
     \<lparr>json_body = Some [(''async_query'', RBool True)],
      query_args = Some [(''location'', RStr ''binance'')],
      path_view_args = Some [(''name'', RStr ''kraken'')]\<rparr> () = Some r
      \<and> keys r \<subseteq> {''async_query'', ''name''}
      \<and> getitem r ''location'' = None)"
  using body_present_ignores_query
    [where request = "\<lparr>json_body = Some [(''async_query'', RBool True)],
           query_args = Some [(''location'', RStr ''binance'')],
           path_view_args = Some [(''name'', RStr ''kraken'')]\<rparr>"
       and b = "[(''async_query'', RBool True)]" and schema = "()" and q' = None]
  by auto

text \<open>
  Claim C6: loading, merging and validating are deterministic and leave their inputs
  as they were. The one assignment of the merge goes into the \<open>dict\<close> parsed from the
  body in that run, never into an object of the request: after a loader run followed
  by validation, the request in the store is the request before it, the result is the
  one the request alone determines, and a second run from the store the first run left
  gives the same validated arguments.
\<close>

theorem validating_twice_is_identical:
  "(case validate_request_st location schema st of
      (first, st') \<Rightarrow>
        (case validate_request_st location schema st' of
           (second, st'') \<Rightarrow>
             second = first
             \<and> first = validate_request location (the_request st) schema
             \<and> the_request st' = the_request st
             \<and> the_request st'' = the_request st))"
proof -
  obtain first st' where 1: "validate_request_st location schema st = (first, st')"
    by (cases "validate_request_st location schema st")
  obtain second st'' where 2: "validate_request_st location schema st' = (second, st'')"
    by (cases "validate_request_st location schema st'")
  from validate_request_st_correct [OF 1] validate_request_st_correct [OF 2]
  show ?thesis
    by (simp add: 1 2)
qed

theorem validating_twice_is_identical_witness:
  "validate_request_st json_and_view_args
      [\<lparr>field_name = ''blockchain'', field_required = True, field_default = None,
          field_rule = enum_rule [(''ETH'', ''ETH'')]\<rparr>,
       \<lparr>field_name = ''async_query'', field_required = False,
          field_default = Some (TBool False),
          field_rule = bool_rule [''true''] [''false'']\<rparr>]
      \<lparr>the_request = \<lparr>json_body = Some [(''async_query'', RBool True)], query_args = None,
          path_view_args = Some [(''blockchain'', RStr ''ETH'')]\<rparr>, allocated = []\<rparr>
   = (Inr [(''blockchain'', TEnum ''ETH''), (''async_query'', TBool True)],
      \<lparr>the_request = \<lparr>json_body = Some [(''async_query'', RBool True)], query_args = None,
          path_view_args = Some [(''blockchain'', RStr ''ETH'')]\<rparr>,
       allocated = [[(''async_query'', RBool True), (''blockchain'', RStr ''ETH'')]]\<rparr>)
   \<and> fst (validate_request_st json_and_view_args
      [\<lparr>field_name = ''blockchain'', field_required = True, field_default = None,
          field_rule = enum_rule [(''ETH'', ''ETH'')]\<rparr>,
       \<lparr>field_name = ''async_query'', field_required = False,
          field_default = Some (TBool False),
          field_rule = bool_rule [''true''] [''false'']\<rparr>]
      \<lparr>the_request = \<lparr>json_body = Some [(''async_query'', RBool True)], query_args = None,
          path_view_args = Some [(''blockchain'', RStr ''ETH'')]\<rparr>,
       allocated = [[(''async_query'', RBool True), (''blockchain'', RStr ''ETH'')]]\<rparr>)
   = Inr [(''blockchain'', TEnum ''ETH''), (''async_query'', TBool True)]"
proof -
  let ?schema = "[\<lparr>field_name = ''blockchain'', field_required = True, field_default = None,
          field_rule = enum_rule [(''ETH'', ''ETH'')]\<rparr>,
       \<lparr>field_name = ''async_query'', field_required = False,
          field_default = Some (TBool False),
          field_rule = bool_rule [''true''] [''false'']\<rparr>]"
  let ?st0 = "\<lparr>the_request = \<lparr>json_body = Some [(''async_query'', RBool True)],
                   query_args = None,
                   path_view_args = Some [(''blockchain'', RStr ''ETH'')]\<rparr>,
                allocated = []\<rparr>"
  let ?st1 = "\<lparr>the_request = \<lparr>json_body = Some [(''async_query'', RBool True)],
                   query_args = None,
                   path_view_args = Some [(''blockchain'', RStr ''ETH'')]\<rparr>,
                allocated = [[(''async_query'', RBool True), (''blockchain'', RStr ''ETH'')]]\<rparr>"
  let ?args = "[(''blockchain'', TEnum ''ETH''), (''async_query'', TBool True)]"
  have 1: "validate_request_st json_and_view_args ?schema ?st0 = (Inr ?args, ?st1)"
    by (simp add: validate_request_st_def load_json_viewargs_data_st_def load_json_st_def
        load_view_args_st_def alloc_def combine_data_and_view_args_st_def deref_def
        assign_def merged_payload_def validate_def validate_field_def unknown_fields_def)
  obtain second st2 where 2: "validate_request_st json_and_view_args ?schema ?st1 = (second, st2)"
    by (cases "validate_request_st json_and_view_args ?schema ?st1")
  from validating_twice_is_identical
    [where location = json_and_view_args and schema = ?schema and st = ?st0]
  have "second = Inr ?args"
    by (simp add: 1 2)
  with 1 2 show ?thesis by simp
qed

text \<open>
  Claim C7: every put, patch or delete dispatch of the blockchain accounts resource
  builds its schema once, as the first step and so before the loader runs, from the
  ethereum connector the chain manager holds when the request is dispatched; the
  response is the one validation against that schema gives.
\<close>

theorem schema_built_once_per_dispatch:
  "(\<exists>rest response.
      BlockchainsAccountsResource_put BlockchainAccountsPutSchema put self request =
        (SchemaBuilt (BlockchainAccountsPutSchema (chain_manager_ethereum self))
           # LoaderRan json_and_view_args # rest, response)
      \<and> filter is_SchemaBuilt rest = []
      \<and> response = snd (use_kwargs
            (Static (BlockchainAccountsPutSchema (chain_manager_ethereum self)))
            json_and_view_args put self request))
   \<and> (\<exists>rest response.
      BlockchainsAccountsResource_patch BlockchainAccountsPatchSchema patch self request =
        (SchemaBuilt (BlockchainAccountsPatchSchema (chain_manager_ethereum self))
           # LoaderRan json_and_view_args # rest, response)
      \<and> filter is_SchemaBuilt rest = []
      \<and> response = snd (use_kwargs
            (Static (BlockchainAccountsPatchSchema (chain_manager_ethereum self)))
            json_and_view_args patch self request))
   \<and> (\<exists>rest response.
      BlockchainsAccountsResource_delete BlockchainAccountsDeleteSchema delete self request =
        (SchemaBuilt (BlockchainAccountsDeleteSchema (chain_manager_ethereum self))
           # LoaderRan json_and_view_args # rest, response)
      \<and> filter is_SchemaBuilt rest = []
      \<and> response = snd (use_kwargs
            (Static (BlockchainAccountsDeleteSchema (chain_manager_ethereum self)))
            json_and_view_args delete self request))"
proof (intro conjI)
  show "\<exists>rest response.
      BlockchainsAccountsResource_put BlockchainAccountsPutSchema put self request =
        (SchemaBuilt (BlockchainAccountsPutSchema (chain_manager_ethereum self))
           # LoaderRan json_and_view_args # rest, response)
      \<and> filter is_SchemaBuilt rest = []
      \<and> response = snd (use_kwargs
            (Static (BlockchainAccountsPutSchema (chain_manager_ethereum self)))
            json_and_view_args put self request)"
    using use_kwargs_Factory
      [of "make_put_schema BlockchainAccountsPutSchema" json_and_view_args put self request]
    by (simp add: BlockchainsAccountsResource_put_def make_put_schema_def)
  show "\<exists>rest response.
      BlockchainsAccountsResource_patch BlockchainAccountsPatchSchema patch self request =
        (SchemaBuilt (BlockchainAccountsPatchSchema (chain_manager_ethereum self))
           # LoaderRan json_and_view_args # rest, response)
      \<and> filter is_SchemaBuilt rest = []
      \<and> response = snd (use_kwargs
            (Static (BlockchainAccountsPatchSchema (chain_manager_ethereum self)))
            json_and_view_args patch self request)"
    using use_kwargs_Factory
      [of "make_patch_schema BlockchainAccountsPatchSchema" json_and_view_args patch self request]
    by (simp add: BlockchainsAccountsResource_patch_def make_patch_schema_def)
  show "\<exists>rest response.
      BlockchainsAccountsResource_delete BlockchainAccountsDeleteSchema delete self request =
        (SchemaBuilt (BlockchainAccountsDeleteSchema (chain_manager_ethereum self))
           # LoaderRan json_and_view_args # rest, response)
      \<and> filter is_SchemaBuilt rest = []
      \<and> response = snd (use_kwargs
            (Static (BlockchainAccountsDeleteSchema (chain_manager_ethereum self)))
            json_and_view_args delete self request)"
    using use_kwargs_Factory
      [of "make_delete_schema BlockchainAccountsDeleteSchema" json_and_view_args delete self request]
    by (simp add: BlockchainsAccountsResource_delete_def make_delete_schema_def)
qed



text \<open>
  Claim C9: when the data read from body or query string is the empty mapping and
  path segments are present, the body+path and body+query+path loaders return the
  path segments themselves, wrapped with the schema.
\<close>

theorem empty_data_replaced_by_view_args:
  assumes "path_view_args request = Some va"
  shows "(json_body request = Some [] \<longrightarrow>
            load_json_viewargs_data request schema = Some (MultiDictProxy va schema)
          \<and> load_json_query_viewargs_data request schema = Some (MultiDictProxy va schema))
       \<and> (json_body request = None \<and> query_args request = Some [] \<longrightarrow>
            load_json_query_viewargs_data request schema = Some (MultiDictProxy va schema))"
  using assms
  by (simp add: load_json_viewargs_data_def load_json_query_viewargs_data_def load_json_def
      load_querystring_def load_view_args_def combine_data_and_view_args_def is_empty_dict_def)

theorem empty_data_replaced_by_view_args_witness:
  "path_view_args \<lparr>json_body = Some [], query_args = None,
      path_view_args = Some [(''blockchain'', RStr ''ETH'')]\<rparr>
     = Some [(''blockchain'', RStr ''ETH'')]
   \<and> load_json_viewargs_data \<lparr>json_body = Some [], query_args = None,
      path_view_args = Some [(''blockchain'', RStr ''ETH'')]\<rparr> ()
     = Some (MultiDictProxy [(''blockchain'', RStr ''ETH'')] ())
   \<and> load_json_query_viewargs_data \<lparr>json_body = None, query_args = Some [],
      path_view_args = Some [(''name'', RStr ''kraken'')]\<rparr> ()
     = Some (MultiDictProxy [(''name'', RStr ''kraken'')] ())"
  using empty_data_replaced_by_view_args
    [of "\<lparr>json_body = Some [], query_args = None,
           path_view_args = Some [(''blockchain'', RStr ''ETH'')]\<rparr>"
        "[(''blockchain'', RStr ''ETH'')]" "()"]
    empty_data_replaced_by_view_args
    [of "\<lparr>json_body = None, query_args = Some [],
           path_view_args = Some [(''name'', RStr ''kraken'')]\<rparr>"
        "[(''name'', RStr ''kraken'')]" "()"]
  by simp

text \<open>
  Claim C10: with \<open>view_args\<close> missing, \<open>_combine_data_and_view_args\<close> returns
  \<open>data\<close> as it is, and writes nothing into it.
\<close>

theorem view_args_missing_keeps_data:
  "combine_data_and_view_args data None schema = data
   \<and> combine_data_and_view_args_written data None = data"
  by (simp add: combine_data_and_view_args_def combine_data_and_view_args_written_def)

end
